theory Spec2Isabelle
  imports Main "HOL-Library.Char_ord" "HOL-Library.List_Lexorder" "HOL-Library.Product_Lexorder"
    "HOL-Library.Multiset"
begin

section \<open>pacleaner: package model, catalogs and selection\<close>

text \<open>
  A shallow embedding of \<^verbatim>\<open>pacleaner.py\<close>. Python strings are \<open>string\<close>; the order
  \<open><\<close> on them is the lexicographic order of \<open>HOL-Library.List_Lexorder\<close> over the
  character order of \<open>HOL-Library.Char_ord\<close>, which is Python's comparison of \<open>str\<close>
  by code point (a proper prefix is smaller) on strings of characters below 256, the
  range of \<open>char\<close>. Tuples of strings, the sort keys built by
  \<^verbatim>\<open>attrgetter\<close>, are ordered lexicographically by \<open>HOL-Library.Product_Lexorder\<close>.
  Exceptions are values of type \<open>error\<close>; a function that may raise returns
  \<open>error + 'a\<close>.
\<close>

datatype error = NameError | ValueError | IndexError

subsection \<open>String and list primitives of Python used by the program\<close>

text \<open>\<^verbatim>\<open>s.split(sep, maxsplit)\<close> for a one-character separator.\<close>

fun split_max :: "char \<Rightarrow> nat \<Rightarrow> string \<Rightarrow> string list" where
  "split_max sep 0 s = [s]"
| "split_max sep (Suc n) s =
     (if sep \<in> set s
      then takeWhile (\<lambda>c. c \<noteq> sep) s # split_max sep n (tl (dropWhile (\<lambda>c. c \<noteq> sep) s))
      else [s])"

text \<open>\<^verbatim>\<open>s.rsplit(sep, maxsplit)\<close>: the same, scanning from the right.\<close>

definition rsplit :: "char \<Rightarrow> nat \<Rightarrow> string \<Rightarrow> string list" where
  "rsplit sep n s = rev (map rev (split_max sep n (rev s)))"

text \<open>\<^verbatim>\<open>s.split(sep)\<close> without a limit: every occurrence of the separator splits.\<close>

definition split_all :: "char \<Rightarrow> string \<Rightarrow> string list" where
  "split_all sep s = split_max sep (length s) s"

text \<open>\<^verbatim>\<open>s.strip('\n')\<close>: newlines are removed at both ends.\<close>

definition strip_nl :: "string \<Rightarrow> string" where
  "strip_nl s =
     rev (dropWhile (\<lambda>c. c = CHR 0x0A) (rev (dropWhile (\<lambda>c. c = CHR 0x0A) s)))"

text \<open>\<^verbatim>\<open>s.endswith(suffix)\<close> and \<^verbatim>\<open>s.endswith(tuple)\<close>.\<close>

definition endswith :: "string \<Rightarrow> string \<Rightarrow> bool" where
  "endswith s suf = (length suf \<le> length s \<and> drop (length s - length suf) s = suf)"

definition endswith_any :: "string \<Rightarrow> string list \<Rightarrow> bool" where
  "endswith_any s sufs = list_ex (endswith s) sufs"

text \<open>\<^verbatim>\<open>lines[lines.index(x) + 1]\<close>: \<^verbatim>\<open>index\<close> raises \<^verbatim>\<open>ValueError\<close> when \<open>x\<close> is
  not in the list, the subscript raises \<^verbatim>\<open>IndexError\<close> when \<open>x\<close> is the last line.\<close>

fun index_of :: "'a list \<Rightarrow> 'a \<Rightarrow> error + nat" where
  "index_of [] x = Inl ValueError"
| "index_of (y # ys) x =
     (if y = x then Inr 0
      else (case index_of ys x of Inl e \<Rightarrow> Inl e | Inr i \<Rightarrow> Inr (Suc i)))"

definition subscript :: "'a list \<Rightarrow> nat \<Rightarrow> error + 'a" where
  "subscript xs i = (if i < length xs then Inr (xs ! i) else Inl IndexError)"

definition line_after :: "string list \<Rightarrow> string \<Rightarrow> error + string" where
  "line_after lines marker =
     (case index_of lines marker of Inl e \<Rightarrow> Inl e | Inr i \<Rightarrow> subscript lines (i + 1))"

text \<open>\<^verbatim>\<open>xs[0:stop]\<close>: a negative \<open>stop\<close> counts from the end, and both ends are
  clamped to the list.\<close>

definition slice_to :: "'a list \<Rightarrow> int \<Rightarrow> 'a list" where
  "slice_to xs stop =
     (if stop < 0 then take (nat (int (length xs) + stop)) xs else take (nat stop) xs)"

text \<open>\<^verbatim>\<open>os.path.join(a, b)\<close> on POSIX.\<close>

definition os_path_join :: "string \<Rightarrow> string \<Rightarrow> string" where
  "os_path_join a b =
     (if b \<noteq> [] \<and> hd b = CHR ''/'' then b
      else if a = [] \<or> last a = CHR ''/'' then a @ b
      else a @ ''/'' @ b)"

subsection \<open>Module constants\<close>

definition EXTENSIONS :: "string list" where
  "EXTENSIONS = [''pkg.tar.xz'', ''pkg.tar.gzip'']"

definition NR_OF_PKG :: int where
  "NR_OF_PKG = 2"

subsection \<open>Class \<^verbatim>\<open>Package\<close> and its subclasses\<close>

record Package =
  name :: string
  version :: string
  pkg_version :: string
  arch :: string

record PkgFile = Package +
  filename :: string
  fullpath :: string
  file_ext :: string

type_synonym InstalledPkg = Package

text \<open>\<^verbatim>\<open>Package.__str__\<close>\<close>

definition Package_str :: "'a Package_scheme \<Rightarrow> string" where
  "Package_str self = name self @ ''-'' @ version self @ ''-'' @ pkg_version self"

text \<open>\<^verbatim>\<open>Package.__eq__\<close>. The assertion that \<open>other\<close> is a \<^verbatim>\<open>Package\<close> holds by
  typing.\<close>

definition Package_eq :: "'a Package_scheme \<Rightarrow> 'b Package_scheme \<Rightarrow> bool" where
  "Package_eq self other =
     (name self = name other \<and> version self = version other
      \<and> pkg_version self = pkg_version other \<and> arch self = arch other)"

definition Package_ne :: "'a Package_scheme \<Rightarrow> 'b Package_scheme \<Rightarrow> bool" where
  "Package_ne self other = (\<not> Package_eq self other)"

text \<open>\<^verbatim>\<open>Package.__lt__\<close>. Its first branch evaluates the name \<^verbatim>\<open>false\<close>, which Python
  does not define: the branch raises \<^verbatim>\<open>NameError\<close>.\<close>

definition Package_lt :: "'a Package_scheme \<Rightarrow> 'b Package_scheme \<Rightarrow> error + bool" where
  "Package_lt self other =
     (if Package_eq self other then Inl NameError
      else if name self = name other then
        (if version self = version other
         then Inr (pkg_version self < pkg_version other)
         else Inr (version self < version other))
      else Inr (name self < name other))"

text \<open>\<^verbatim>\<open>__le__\<close>, \<^verbatim>\<open>__gt__\<close>, \<^verbatim>\<open>__ge__\<close>; \<^verbatim>\<open>or\<close> evaluates its right operand only
  when the left one is false.\<close>

definition Package_le :: "'a Package_scheme \<Rightarrow> 'b Package_scheme \<Rightarrow> error + bool" where
  "Package_le self other =
     (if Package_eq self other then Inr True else Package_lt self other)"

definition Package_gt :: "'a Package_scheme \<Rightarrow> 'b Package_scheme \<Rightarrow> error + bool" where
  "Package_gt self other =
     (case Package_le self other of Inl e \<Rightarrow> Inl e | Inr b \<Rightarrow> Inr (\<not> b))"

definition Package_ge :: "'a Package_scheme \<Rightarrow> 'b Package_scheme \<Rightarrow> error + bool" where
  "Package_ge self other =
     (if Package_eq self other then Inr True else Package_gt self other)"

text \<open>\<^verbatim>\<open>PkgFile.__init__(filename, path)\<close>: unpacking a list of the wrong length
  raises \<^verbatim>\<open>ValueError\<close>.\<close>

definition PkgFile_init :: "string \<Rightarrow> string \<Rightarrow> error + PkgFile" where
  "PkgFile_init fname dir =
     (case rsplit CHR ''-'' 3 fname of
        [n, v, pv, rest] \<Rightarrow>
          (case split_max CHR ''.'' 1 rest of
             [a, e] \<Rightarrow>
               Inr \<lparr>name = n, version = v, pkg_version = pv, arch = a,
                    filename = fname, fullpath = os_path_join dir fname, file_ext = e\<rparr>
           | _ \<Rightarrow> Inl ValueError)
      | _ \<Rightarrow> Inl ValueError)"

text \<open>\<^verbatim>\<open>InstalledPkg.__init__(name, version, arch)\<close>\<close>

definition InstalledPkg_init :: "string \<Rightarrow> string \<Rightarrow> string \<Rightarrow> error + InstalledPkg" where
  "InstalledPkg_init n ver a =
     (case split_all CHR ''-'' ver of
        [v, pv] \<Rightarrow> Inr \<lparr>name = n, version = v, pkg_version = pv, arch = a\<rparr>
      | _ \<Rightarrow> Inl ValueError)"

subsection \<open>Class \<^verbatim>\<open>PkgList\<close> and its subclasses\<close>

record 'p PkgList =
  path :: string
  pkg_list :: "'p list"

text \<open>\<^verbatim>\<open>PkgList.sort\<close> and the \<^verbatim>\<open>sorted\<close> call of \<^verbatim>\<open>older_than\<close>: a stable sort on
  the key \<^verbatim>\<open>attrgetter("name", "version", "pkg_version")\<close>.\<close>

definition sort_key_of :: "'a Package_scheme \<Rightarrow> string \<times> string \<times> string" where
  "sort_key_of p = (name p, version p, pkg_version p)"

definition sorted_by_key :: "'a Package_scheme list \<Rightarrow> 'a Package_scheme list" where
  "sorted_by_key ps = sort_key sort_key_of ps"

definition PkgList_sort :: "('a Package_scheme) PkgList \<Rightarrow> ('a Package_scheme) PkgList" where
  "PkgList_sort self = self\<lparr>pkg_list := sorted_by_key (pkg_list self)\<rparr>"

definition names :: "('a Package_scheme) PkgList \<Rightarrow> string list" where
  "names self = map name (pkg_list self)"

fun get_by_name_loop ::
  "'a Package_scheme list \<Rightarrow> string \<Rightarrow> 'a Package_scheme list \<Rightarrow> 'a Package_scheme list" where
  "get_by_name_loop [] n result = result"
| "get_by_name_loop (pkg # rest) n result =
     get_by_name_loop rest n (if name pkg = n then result @ [pkg] else result)"

definition get_by_name :: "('a Package_scheme) PkgList \<Rightarrow> string \<Rightarrow> 'a Package_scheme list" where
  "get_by_name self n = get_by_name_loop (pkg_list self) n []"

fun unique_loop :: "'a Package_scheme list \<Rightarrow> string list \<Rightarrow> string list" where
  "unique_loop [] result = result"
| "unique_loop (pkg # rest) result =
     unique_loop rest (if name pkg \<notin> set result then result @ [name pkg] else result)"

definition unique :: "('a Package_scheme) PkgList \<Rightarrow> string list" where
  "unique self = unique_loop (pkg_list self) []"

text \<open>\<^verbatim>\<open>PkgFileList.__init__(path)\<close>. The result of \<^verbatim>\<open>os.listdir(path)\<close> is the
  parameter \<open>listing\<close>. An exception raised for one file leaves the constructor.\<close>

fun PkgFileList_loop :: "string \<Rightarrow> string list \<Rightarrow> PkgFile list \<Rightarrow> error + PkgFile list" where
  "PkgFileList_loop dir [] acc = Inr acc"
| "PkgFileList_loop dir (f # fs) acc =
     (case PkgFile_init f dir of
        Inl e \<Rightarrow> Inl e
      | Inr p \<Rightarrow> PkgFileList_loop dir fs (acc @ [p]))"

definition PkgFileList_init :: "string \<Rightarrow> string list \<Rightarrow> error + PkgFile PkgList" where
  "PkgFileList_init dir listing =
     (let filelist = filter (\<lambda>f. endswith_any f EXTENSIONS) listing in
      case PkgFileList_loop dir filelist [] of
        Inl e \<Rightarrow> Inl e
      | Inr ps \<Rightarrow> Inr \<lparr>path = dir, pkg_list = ps\<rparr>)"

text \<open>\<^verbatim>\<open>InstalledPkgList.__init__(path)\<close>. The body of the loop, for the lines that
  \<^verbatim>\<open>readlines\<close> returns for one \<^verbatim>\<open>desc\<close> file, is \<open>InstalledPkg_of_desc\<close>; the
  constructor gets the contents of the \<^verbatim>\<open>desc\<close> files of the subdirectories, in
  listing order.\<close>

definition InstalledPkg_of_desc :: "string list \<Rightarrow> error + InstalledPkg" where
  "InstalledPkg_of_desc raw =
     (let lines = map strip_nl raw in
      case line_after lines ''%NAME%'' of Inl e \<Rightarrow> Inl e | Inr n \<Rightarrow>
      case line_after lines ''%VERSION%'' of Inl e \<Rightarrow> Inl e | Inr ver \<Rightarrow>
      case line_after lines ''%ARCH%'' of Inl e \<Rightarrow> Inl e | Inr a \<Rightarrow>
      InstalledPkg_init n ver a)"

fun InstalledPkgList_loop ::
  "string list list \<Rightarrow> InstalledPkg list \<Rightarrow> error + InstalledPkg list" where
  "InstalledPkgList_loop [] acc = Inr acc"
| "InstalledPkgList_loop (d # ds) acc =
     (case InstalledPkg_of_desc d of
        Inl e \<Rightarrow> Inl e
      | Inr p \<Rightarrow> InstalledPkgList_loop ds (acc @ [p]))"

definition InstalledPkgList_init ::
  "string \<Rightarrow> string list list \<Rightarrow> error + InstalledPkg PkgList" where
  "InstalledPkgList_init dir descs =
     (case InstalledPkgList_loop descs [] of
        Inl e \<Rightarrow> Inl e
      | Inr ps \<Rightarrow> Inr \<lparr>path = dir, pkg_list = ps\<rparr>)"

subsection \<open>Selection\<close>

fun uninstalled_loop ::
  "PkgFile list \<Rightarrow> ('a Package_scheme) PkgList \<Rightarrow> PkgFile list \<Rightarrow> PkgFile list" where
  "uninstalled_loop [] installed result = result"
| "uninstalled_loop (pkgfile # rest) installed result =
     uninstalled_loop rest installed
       (if name pkgfile \<notin> set (names installed) then result @ [pkgfile] else result)"

definition uninstalled_packages ::
  "PkgFile PkgList \<Rightarrow> ('a Package_scheme) PkgList \<Rightarrow> PkgFile list" where
  "uninstalled_packages pkgfiles installed = uninstalled_loop (pkg_list pkgfiles) installed []"

fun append_each :: "'a list \<Rightarrow> 'a list \<Rightarrow> 'a list" where
  "append_each [] result = result"
| "append_each (pkg # rest) result = append_each rest (result @ [pkg])"

fun older_than_loop ::
  "string list \<Rightarrow> PkgFile PkgList \<Rightarrow> int \<Rightarrow> PkgFile list \<Rightarrow> PkgFile list" where
  "older_than_loop [] pkgfiles number result = result"
| "older_than_loop (pkg # rest) pkgfiles number result =
     (let full_list = get_by_name pkgfiles pkg in
      if int (length full_list) > number then
        (let full_list = sorted_by_key full_list in
         if length (slice_to full_list (- number)) > 0
         then older_than_loop rest pkgfiles number
                (append_each (slice_to full_list (- number)) result)
         else older_than_loop rest pkgfiles number result)
      else older_than_loop rest pkgfiles number result)"

definition older_than ::
  "PkgFile PkgList \<Rightarrow> ('a Package_scheme) PkgList \<Rightarrow> int \<Rightarrow> PkgFile list" where
  "older_than pkgfiles installed number =
     older_than_loop (unique installed) pkgfiles number []"

fun find_files_inner ::
  "'a Package_scheme \<Rightarrow> PkgFile list \<Rightarrow> PkgFile list \<Rightarrow> PkgFile list" where
  "find_files_inner package [] res = res"
| "find_files_inner package (pkgfile # rest) res =
     find_files_inner package rest
       (if Package_eq pkgfile package then res @ [pkgfile] else res)"

fun find_files_loop ::
  "'a Package_scheme list \<Rightarrow> PkgFile PkgList \<Rightarrow> PkgFile list \<Rightarrow> PkgFile list" where
  "find_files_loop [] pkgfiles res = res"
| "find_files_loop (package # rest) pkgfiles res =
     find_files_loop rest pkgfiles (find_files_inner package (pkg_list pkgfiles) res)"

definition find_files :: "'a Package_scheme list \<Rightarrow> PkgFile PkgList \<Rightarrow> PkgFile list" where
  "find_files packages pkgfiles = find_files_loop packages pkgfiles []"

subsection \<open>Deletion\<close>

text \<open>
  \<^verbatim>\<open>remove_packages\<close> acts on the file system and on standard output. The state is
  a file system of any type \<open>'fs\<close> together with the lines printed so far;
  \<^verbatim>\<open>os.remove\<close> is the parameter \<open>os_remove\<close>, which returns the \<^verbatim>\<open>errno\<close> of the
  \<^verbatim>\<open>OSError\<close> it raises, or \<open>None\<close>, and the file system it leaves. A run either
  returns or is ended by \<^verbatim>\<open>exit()\<close>.
\<close>

datatype errno = EACCES | ENOENT | EPERM | EISDIR | EBUSY | EROFS

datatype 'w run = Returned 'w | Exited 'w

fun remove_packages ::
  "('fs \<Rightarrow> string \<Rightarrow> errno option \<times> 'fs) \<Rightarrow> PkgFile list \<Rightarrow> 'fs \<times> string list
   \<Rightarrow> ('fs \<times> string list) run" where
  "remove_packages os_remove [] (fs, out) = Returned (fs, out)"
| "remove_packages os_remove (pkg # rest) (fs, out) =
     (let out1 = out @ [''deleting... '' @ Package_str pkg] in
      case os_remove fs (fullpath pkg) of
        (None, fs1) \<Rightarrow> remove_packages os_remove rest (fs1, out1)
      | (Some e, fs1) \<Rightarrow>
          if e = EACCES
          then Exited (fs1, out1 @ [''You don't have premissions to delete this file. Run as Root?''])
          else remove_packages os_remove rest (fs1, out1))"

text \<open>A file system for running \<open>remove_packages\<close>: the paths that exist, the paths
  in a directory the user may not write to (their removal fails with \<^verbatim>\<open>EACCES\<close>), and the
  paths of immutable files or of other users' files in a sticky directory (their removal
  fails with \<^verbatim>\<open>EPERM\<close>).\<close>

record simple_fs =
  existing :: "string list"
  protected :: "string list"
  immutable :: "string list"

definition simple_remove :: "simple_fs \<Rightarrow> string \<Rightarrow> errno option \<times> simple_fs" where
  "simple_remove fs p =
     (if p \<notin> set (existing fs) then (Some ENOENT, fs)
      else if p \<in> set (protected fs) then (Some EACCES, fs)
      else if p \<in> set (immutable fs) then (Some EPERM, fs)
      else (None, fs\<lparr>existing := removeAll p (existing fs)\<rparr>))"

section \<open>Properties\<close>

subsection \<open>The loops as list functions\<close>

lemma get_by_name_loop_filter:
  "get_by_name_loop ps n result = result @ filter (\<lambda>p. name p = n) ps"
  by (induction ps arbitrary: result) simp_all

lemma get_by_name_filter: "get_by_name self n = filter (\<lambda>p. name p = n) (pkg_list self)"
  by (simp add: get_by_name_def get_by_name_loop_filter)

lemma unique_loop_set: "set (unique_loop ps result) = set result \<union> name ` set ps"
  by (induction ps arbitrary: result) auto

lemma unique_loop_distinct: "distinct result \<Longrightarrow> distinct (unique_loop ps result)"
  by (induction ps arbitrary: result) auto

lemma set_unique: "set (unique self) = set (names self)"
  by (simp add: unique_def names_def unique_loop_set)

lemma distinct_unique: "distinct (unique self)"
  by (simp add: unique_def unique_loop_distinct)

lemma uninstalled_loop_filter:
  "uninstalled_loop ps installed result =
     result @ filter (\<lambda>p. name p \<notin> set (names installed)) ps"
  by (induction ps arbitrary: result) simp_all

lemma append_each_append: "append_each xs result = result @ xs"
  by (induction xs arbitrary: result) simp_all

lemma find_files_inner_filter:
  "find_files_inner package fs res = res @ filter (\<lambda>f. Package_eq f package) fs"
  by (induction fs arbitrary: res) simp_all

lemma find_files_loop_concat:
  "find_files_loop packages pkgfiles res =
     res @ concat (map (\<lambda>p. filter (\<lambda>f. Package_eq f p) (pkg_list pkgfiles)) packages)"
  by (induction packages arbitrary: res) (simp_all add: find_files_inner_filter)

subsection \<open>Packages that are not installed\<close>

text \<open>
  C4. For every cache catalog \<open>C\<close> and installed catalog \<open>I\<close>, \<open>uninstalled_packages\<close>
  returns the entries of \<open>C\<close> whose name is not among the names of \<open>I\<close>, in the order
  of \<open>C\<close>: an entry is in the result if and only if it is an entry of \<open>C\<close> and its name
  is not installed. So no entry of the result has an installed name, and every entry of
  \<open>C\<close> is in the result or has its name in \<open>I\<close>.
\<close>

theorem uninstalled_packages_partition:
  "uninstalled_packages C I = filter (\<lambda>e. name e \<notin> set (names I)) (pkg_list C)
   \<and> (e \<in> set (uninstalled_packages C I)
        \<longleftrightarrow> e \<in> set (pkg_list C) \<and> name e \<notin> set (names I))"
  by (simp add: uninstalled_packages_def uninstalled_loop_filter)

theorem uninstalled_packages_partition_witness:
  "uninstalled_packages
     \<lparr>path = ''/c'', pkg_list =
        [\<lparr>name = ''wget'', version = ''1.2'', pkg_version = ''1'', arch = ''any'',
          filename = ''wget-1.2-1-any.pkg.tar.xz'',
          fullpath = ''/c/wget-1.2-1-any.pkg.tar.xz'', file_ext = ''pkg.tar.xz''\<rparr>,
         \<lparr>name = ''curl'', version = ''7.80.0'', pkg_version = ''1'', arch = ''x86_64'',
          filename = ''curl-7.80.0-1-x86_64.pkg.tar.xz'',
          fullpath = ''/c/curl-7.80.0-1-x86_64.pkg.tar.xz'', file_ext = ''pkg.tar.xz''\<rparr>]\<rparr>
     \<lparr>path = ''/i'', pkg_list =
        [\<lparr>name = ''curl'', version = ''7.81.0'', pkg_version = ''1'', arch = ''x86_64''\<rparr>]\<rparr>
   = [\<lparr>name = ''wget'', version = ''1.2'', pkg_version = ''1'', arch = ''any'',
       filename = ''wget-1.2-1-any.pkg.tar.xz'',
       fullpath = ''/c/wget-1.2-1-any.pkg.tar.xz'', file_ext = ''pkg.tar.xz''\<rparr>]"
  using uninstalled_packages_partition
    [of "\<lparr>path = ''/c'', pkg_list =
        [\<lparr>name = ''wget'', version = ''1.2'', pkg_version = ''1'', arch = ''any'',
          filename = ''wget-1.2-1-any.pkg.tar.xz'',
          fullpath = ''/c/wget-1.2-1-any.pkg.tar.xz'', file_ext = ''pkg.tar.xz''\<rparr>,
         \<lparr>name = ''curl'', version = ''7.80.0'', pkg_version = ''1'', arch = ''x86_64'',
          filename = ''curl-7.80.0-1-x86_64.pkg.tar.xz'',
          fullpath = ''/c/curl-7.80.0-1-x86_64.pkg.tar.xz'', file_ext = ''pkg.tar.xz''\<rparr>]\<rparr>"
        "\<lparr>path = ''/i'', pkg_list =
        [\<lparr>name = ''curl'', version = ''7.81.0'', pkg_version = ''1'', arch = ''x86_64''\<rparr>]\<rparr>"]
  by (simp add: names_def)

subsection \<open>Equality and order of packages\<close>

lemma sort_key_of_arch_update: "sort_key_of (arch_update f x) = sort_key_of x"
  by (simp add: sort_key_of_def)

lemma insort_key_arch_update:
  "insort_key sort_key_of (arch_update f x) (map (arch_update f) xs)
     = map (arch_update f) (insort_key sort_key_of x xs)"
  by (induction xs) (simp_all add: sort_key_of_arch_update)

lemma sorted_by_key_arch_update:
  "sorted_by_key (map (arch_update f) ps) = map (arch_update f) (sorted_by_key ps)"
  by (induction ps) (simp_all add: sorted_by_key_def insort_key_arch_update)

lemma Package_lt_neq:
  "\<not> Package_eq a b \<Longrightarrow> Package_lt a b = Inr (sort_key_of a < sort_key_of b)"
  by (auto simp add: Package_lt_def sort_key_of_def Package_eq_def)

lemma Package_lt_True_iff:
  "Package_lt a b = Inr True \<longleftrightarrow> sort_key_of a < sort_key_of b"
  by (auto simp add: Package_lt_def sort_key_of_def Package_eq_def)

text \<open>The first branch of \<^verbatim>\<open>__lt__\<close> is taken for equal packages and raises.\<close>

lemma Package_lt_self: "Package_lt a a = Inl NameError"
  by (simp add: Package_lt_def Package_eq_def)

lemma Package_lt_eq: "Package_eq a b \<Longrightarrow> Package_lt a b = Inl NameError"
  by (simp add: Package_lt_def)

text \<open>
  C5, as the claim states it, fails: two packages that differ in the architecture only
  are not equal, and neither is less than the other.
\<close>

theorem Package_lt_total_counterexample:
  "\<not> Package_eq \<lparr>name = ''curl'', version = ''7.80.0'', pkg_version = ''1'', arch = ''any''\<rparr>
       \<lparr>name = ''curl'', version = ''7.80.0'', pkg_version = ''1'', arch = ''x86_64''\<rparr>
   \<and> Package_lt \<lparr>name = ''curl'', version = ''7.80.0'', pkg_version = ''1'', arch = ''any''\<rparr>
       \<lparr>name = ''curl'', version = ''7.80.0'', pkg_version = ''1'', arch = ''x86_64''\<rparr>
       = Inr False
   \<and> Package_lt \<lparr>name = ''curl'', version = ''7.80.0'', pkg_version = ''1'', arch = ''x86_64''\<rparr>
       \<lparr>name = ''curl'', version = ''7.80.0'', pkg_version = ''1'', arch = ''any''\<rparr>
       = Inr False"
  by (simp add: Package_eq_def Package_lt_def)

text \<open>
  C5, amended. Equality of packages is reflexive, symmetric and transitive, and equal
  packages are not greater than each other. For packages that are not equal, \<open>a < b\<close>
  returns without error and is the strict lexicographic order of the keys (name, version,
  pkg_version), compared as strings: when the two packages differ in one of these three
  fields exactly one of \<open>a < b\<close>, \<open>b < a\<close> holds, when they differ in the architecture
  only neither holds, and \<open><\<close> is transitive.
\<close>

theorem Package_eq_equiv_lt_on_keys:
  "Package_eq a a
   \<and> (Package_eq a b \<longleftrightarrow> Package_eq b a)
   \<and> (Package_eq a b \<and> Package_eq b c \<longrightarrow> Package_eq a c)
   \<and> (Package_eq a b \<longrightarrow> Package_gt a b = Inr False \<and> Package_gt b a = Inr False)
   \<and> (\<not> Package_eq a b \<longrightarrow> Package_lt a b = Inr (sort_key_of a < sort_key_of b))
   \<and> (name a \<noteq> name b \<or> version a \<noteq> version b \<or> pkg_version a \<noteq> pkg_version b \<longrightarrow>
        (Package_lt a b = Inr True \<and> Package_lt b a = Inr False)
        \<or> (Package_lt a b = Inr False \<and> Package_lt b a = Inr True))
   \<and> (name a = name b \<and> version a = version b \<and> pkg_version a = pkg_version b
        \<and> arch a \<noteq> arch b \<longrightarrow>
        Package_lt a b = Inr False \<and> Package_lt b a = Inr False)
   \<and> (Package_lt a b = Inr True \<and> Package_lt b c = Inr True \<longrightarrow> Package_lt a c = Inr True)"
proof -
  have eqv: "Package_eq a a" "Package_eq a b \<longleftrightarrow> Package_eq b a"
    "Package_eq a b \<and> Package_eq b c \<longrightarrow> Package_eq a c"
    by (auto simp add: Package_eq_def)
  have gt: "Package_eq a b \<longrightarrow> Package_gt a b = Inr False \<and> Package_gt b a = Inr False"
    by (auto simp add: Package_gt_def Package_le_def Package_eq_def)
  have lt: "\<not> Package_eq a b \<longrightarrow> Package_lt a b = Inr (sort_key_of a < sort_key_of b)"
    by (simp add: Package_lt_neq)
  have tri:
    "name a \<noteq> name b \<or> version a \<noteq> version b \<or> pkg_version a \<noteq> pkg_version b \<longrightarrow>
       (Package_lt a b = Inr True \<and> Package_lt b a = Inr False)
       \<or> (Package_lt a b = Inr False \<and> Package_lt b a = Inr True)"
    by (auto simp add: Package_lt_def Package_eq_def)
  have arch_only:
    "name a = name b \<and> version a = version b \<and> pkg_version a = pkg_version b
       \<and> arch a \<noteq> arch b \<longrightarrow>
     Package_lt a b = Inr False \<and> Package_lt b a = Inr False"
    by (auto simp add: Package_lt_def Package_eq_def)
  have trans:
    "Package_lt a b = Inr True \<and> Package_lt b c = Inr True \<longrightarrow> Package_lt a c = Inr True"
    unfolding Package_lt_True_iff by auto
  from eqv gt lt tri arch_only trans show ?thesis by blast
qed

theorem Package_eq_equiv_lt_on_keys_witness:
  "Package_lt \<lparr>name = ''curl'', version = ''7.79.0'', pkg_version = ''1'', arch = ''any''\<rparr>
     \<lparr>name = ''curl'', version = ''7.80.0'', pkg_version = ''1'', arch = ''any''\<rparr> = Inr True
   \<and> Package_lt \<lparr>name = ''curl'', version = ''7.80.0'', pkg_version = ''1'', arch = ''any''\<rparr>
     \<lparr>name = ''curl'', version = ''7.79.0'', pkg_version = ''1'', arch = ''any''\<rparr> = Inr False
   \<and> Package_lt \<lparr>name = ''curl'', version = ''7.79.0'', pkg_version = ''1'', arch = ''any''\<rparr>
     \<lparr>name = ''curl'', version = ''7.81.0'', pkg_version = ''1'', arch = ''any''\<rparr> = Inr True"
  using Package_eq_equiv_lt_on_keys
    [of "\<lparr>name = ''curl'', version = ''7.79.0'', pkg_version = ''1'', arch = ''any''\<rparr>"
        "\<lparr>name = ''curl'', version = ''7.80.0'', pkg_version = ''1'', arch = ''any''\<rparr>"
        "\<lparr>name = ''curl'', version = ''7.81.0'', pkg_version = ''1'', arch = ''any''\<rparr>"]
  by (simp add: Package_eq_def sort_key_of_def Package_lt_def)

text \<open>
  C6. Two packages, each a cache-file entry or an installed record, are equal if and only
  if their four fields name, version, pkg_version and arch are equal. The key used for
  sorting is (name, version, pkg_version), ordered by name, then version, then
  pkg_version. Sorting, in \<open>PkgList_sort\<close> and in \<open>older_than\<close>, returns the same
  entries in ascending order of this key, entries of equal key in their former order.
  The architecture is not in the key, so changing the architectures of the entries of a
  list does not change the order in which it is sorted.
\<close>

theorem Package_eq_fields_sort_key_no_arch:
  "(Package_eq a b \<longleftrightarrow>
      name a = name b \<and> version a = version b \<and> pkg_version a = pkg_version b
      \<and> arch a = arch b)
   \<and> (sort_key_of a \<le> sort_key_of b \<longleftrightarrow>
        name a < name b
        \<or> (name a = name b
            \<and> (version a < version b
                \<or> (version a = version b \<and> pkg_version a \<le> pkg_version b))))
   \<and> sorted (map sort_key_of (sorted_by_key ps))
   \<and> mset (sorted_by_key ps) = mset ps
   \<and> filter (\<lambda>p. sort_key_of p = k) (sorted_by_key ps) = filter (\<lambda>p. sort_key_of p = k) ps
   \<and> pkg_list (PkgList_sort l) = sorted_by_key (pkg_list l)
   \<and> path (PkgList_sort l) = path l
   \<and> sort_key_of (a\<lparr>arch := x\<rparr>) = sort_key_of a
   \<and> sorted_by_key (map (arch_update f) ps) = map (arch_update f) (sorted_by_key ps)
   \<and> pkg_list (PkgList_sort (l\<lparr>pkg_list := map (arch_update f) ps\<rparr>))
       = map (arch_update f) (pkg_list (PkgList_sort (l\<lparr>pkg_list := ps\<rparr>)))"
proof -
  have eq: "Package_eq a b \<longleftrightarrow>
      name a = name b \<and> version a = version b \<and> pkg_version a = pkg_version b
      \<and> arch a = arch b"
    by (simp add: Package_eq_def)
  have key: "sort_key_of a \<le> sort_key_of b \<longleftrightarrow>
        name a < name b
        \<or> (name a = name b
            \<and> (version a < version b
                \<or> (version a = version b \<and> pkg_version a \<le> pkg_version b)))"
    by (auto simp add: sort_key_of_def)
  have ordered: "sorted (map sort_key_of (sorted_by_key ps))"
    unfolding sorted_by_key_def by (rule sorted_sort_key)
  have same: "mset (sorted_by_key ps) = mset ps"
    by (simp add: sorted_by_key_def)
  have stable:
    "filter (\<lambda>p. sort_key_of p = k) (sorted_by_key ps) = filter (\<lambda>p. sort_key_of p = k) ps"
    unfolding sorted_by_key_def by (rule sort_key_stable)
  have list_sort: "pkg_list (PkgList_sort l) = sorted_by_key (pkg_list l)"
    "path (PkgList_sort l) = path l"
    by (simp_all add: PkgList_sort_def)
  have no_arch: "sort_key_of (a\<lparr>arch := x\<rparr>) = sort_key_of a"
    by (simp add: sort_key_of_def)
  have commute:
    "sorted_by_key (map (arch_update f) ps) = map (arch_update f) (sorted_by_key ps)"
    by (rule sorted_by_key_arch_update)
  have commute_list:
    "pkg_list (PkgList_sort (l\<lparr>pkg_list := map (arch_update f) ps\<rparr>))
       = map (arch_update f) (pkg_list (PkgList_sort (l\<lparr>pkg_list := ps\<rparr>)))"
    by (simp add: PkgList_sort_def sorted_by_key_arch_update)
  from eq key ordered same stable list_sort no_arch commute commute_list
  show ?thesis by blast
qed

theorem Package_eq_fields_sort_key_no_arch_witness:
  "Package_eq
     \<lparr>name = ''curl'', version = ''7.80.0'', pkg_version = ''1'', arch = ''x86_64'',
      filename = ''curl-7.80.0-1-x86_64.pkg.tar.xz'',
      fullpath = ''/c/curl-7.80.0-1-x86_64.pkg.tar.xz'', file_ext = ''pkg.tar.xz''\<rparr>
     \<lparr>name = ''curl'', version = ''7.80.0'', pkg_version = ''1'', arch = ''x86_64''\<rparr>
   \<and> sorted_by_key (map (arch_update (\<lambda>_. ''i686''))
        [\<lparr>name = ''curl'', version = ''9'', pkg_version = ''1'', arch = ''any''\<rparr>,
         \<lparr>name = ''curl'', version = ''10'', pkg_version = ''1'', arch = ''x86_64''\<rparr>])
     = [\<lparr>name = ''curl'', version = ''10'', pkg_version = ''1'', arch = ''i686''\<rparr>,
        \<lparr>name = ''curl'', version = ''9'', pkg_version = ''1'', arch = ''i686''\<rparr>]"
  using Package_eq_fields_sort_key_no_arch
    [where a = "\<lparr>name = ''curl'', version = ''7.80.0'', pkg_version = ''1'', arch = ''x86_64'',
      filename = ''curl-7.80.0-1-x86_64.pkg.tar.xz'',
      fullpath = ''/c/curl-7.80.0-1-x86_64.pkg.tar.xz'', file_ext = ''pkg.tar.xz''\<rparr>"
      and b = "\<lparr>name = ''curl'', version = ''7.80.0'', pkg_version = ''1'', arch = ''x86_64''\<rparr>"
      and x = "''any''" and f = "\<lambda>_. ''i686''" and k = "(''curl'', ''9'', ''1'')"
      and l = "\<lparr>path = ''/i'', pkg_list = []\<rparr>"
      and ps = "[\<lparr>name = ''curl'', version = ''9'', pkg_version = ''1'', arch = ''any''\<rparr>,
        \<lparr>name = ''curl'', version = ''10'', pkg_version = ''1'', arch = ''x86_64''\<rparr>]"]
  by (simp add: sorted_by_key_def sort_key_of_def)

subsection \<open>Finding the files of given packages\<close>

text \<open>
  C10. For every list of packages and every cache catalog, \<open>find_files\<close> returns, for
  each package of the list in turn, the cache entries equal to it in the four fields
  name, version, pkg_version and arch, in cache order: an entry is in the result if and
  only if it is in the cache and equals some package of the list. The file name and the
  extension are not compared, so two cache entries equal to one package are both
  returned for it, and a package equal to no cache entry contributes nothing.
\<close>

theorem find_files_matches:
  "find_files packages pkgfiles =
     concat (map (\<lambda>p. filter (\<lambda>f. Package_eq f p) (pkg_list pkgfiles)) packages)
   \<and> (f \<in> set (find_files packages pkgfiles) \<longleftrightarrow>
        f \<in> set (pkg_list pkgfiles) \<and> (\<exists>p \<in> set packages. Package_eq f p))
   \<and> find_files [p] pkgfiles = filter (\<lambda>f. Package_eq f p) (pkg_list pkgfiles)
   \<and> (Package_eq f1 p \<and> Package_eq f2 p \<longrightarrow>
        find_files [p] \<lparr>path = d, pkg_list = [f1, f2]\<rparr> = [f1, f2])
   \<and> ((\<forall>f \<in> set (pkg_list pkgfiles). \<not> Package_eq f p) \<longrightarrow> find_files [p] pkgfiles = [])"
  by (auto simp add: find_files_def find_files_loop_concat)

theorem find_files_matches_witness:
  "find_files
     [\<lparr>name = ''curl'', version = ''7.80.0'', pkg_version = ''1'', arch = ''x86_64''\<rparr>]
     \<lparr>path = ''/c'', pkg_list =
        [\<lparr>name = ''curl'', version = ''7.80.0'', pkg_version = ''1'', arch = ''x86_64'',
          filename = ''curl-7.80.0-1-x86_64.pkg.tar.xz'',
          fullpath = ''/c/curl-7.80.0-1-x86_64.pkg.tar.xz'', file_ext = ''pkg.tar.xz''\<rparr>,
         \<lparr>name = ''curl'', version = ''7.80.0'', pkg_version = ''1'', arch = ''x86_64'',
          filename = ''curl-7.80.0-1-x86_64.pkg.tar.gzip'',
          fullpath = ''/c/curl-7.80.0-1-x86_64.pkg.tar.gzip'', file_ext = ''pkg.tar.gzip''\<rparr>]\<rparr>
   = [\<lparr>name = ''curl'', version = ''7.80.0'', pkg_version = ''1'', arch = ''x86_64'',
       filename = ''curl-7.80.0-1-x86_64.pkg.tar.xz'',
       fullpath = ''/c/curl-7.80.0-1-x86_64.pkg.tar.xz'', file_ext = ''pkg.tar.xz''\<rparr>,
      \<lparr>name = ''curl'', version = ''7.80.0'', pkg_version = ''1'', arch = ''x86_64'',
       filename = ''curl-7.80.0-1-x86_64.pkg.tar.gzip'',
       fullpath = ''/c/curl-7.80.0-1-x86_64.pkg.tar.gzip'', file_ext = ''pkg.tar.gzip''\<rparr>]
   \<and> find_files
     [\<lparr>name = ''wget'', version = ''1.2'', pkg_version = ''1'', arch = ''any''\<rparr>]
     \<lparr>path = ''/c'', pkg_list =
        [\<lparr>name = ''curl'', version = ''7.80.0'', pkg_version = ''1'', arch = ''x86_64'',
          filename = ''curl-7.80.0-1-x86_64.pkg.tar.xz'',
          fullpath = ''/c/curl-7.80.0-1-x86_64.pkg.tar.xz'', file_ext = ''pkg.tar.xz''\<rparr>]\<rparr>
   = []"
proof -
  have two: "find_files
     [\<lparr>name = ''curl'', version = ''7.80.0'', pkg_version = ''1'', arch = ''x86_64''\<rparr>]
     \<lparr>path = ''/c'', pkg_list =
        [\<lparr>name = ''curl'', version = ''7.80.0'', pkg_version = ''1'', arch = ''x86_64'',
          filename = ''curl-7.80.0-1-x86_64.pkg.tar.xz'',
          fullpath = ''/c/curl-7.80.0-1-x86_64.pkg.tar.xz'', file_ext = ''pkg.tar.xz''\<rparr>,
         \<lparr>name = ''curl'', version = ''7.80.0'', pkg_version = ''1'', arch = ''x86_64'',
          filename = ''curl-7.80.0-1-x86_64.pkg.tar.gzip'',
          fullpath = ''/c/curl-7.80.0-1-x86_64.pkg.tar.gzip'', file_ext = ''pkg.tar.gzip''\<rparr>]\<rparr>
   = [\<lparr>name = ''curl'', version = ''7.80.0'', pkg_version = ''1'', arch = ''x86_64'',
          filename = ''curl-7.80.0-1-x86_64.pkg.tar.xz'',
          fullpath = ''/c/curl-7.80.0-1-x86_64.pkg.tar.xz'', file_ext = ''pkg.tar.xz''\<rparr>,
      \<lparr>name = ''curl'', version = ''7.80.0'', pkg_version = ''1'', arch = ''x86_64'',
          filename = ''curl-7.80.0-1-x86_64.pkg.tar.gzip'',
          fullpath = ''/c/curl-7.80.0-1-x86_64.pkg.tar.gzip'', file_ext = ''pkg.tar.gzip''\<rparr>]"
    using find_files_matches
      [where packages = "[\<lparr>name = ''curl'', version = ''7.80.0'', pkg_version = ''1'', arch = ''x86_64''\<rparr>]"
         and pkgfiles = "\<lparr>path = ''/c'', pkg_list =
        [\<lparr>name = ''curl'', version = ''7.80.0'', pkg_version = ''1'', arch = ''x86_64'',
          filename = ''curl-7.80.0-1-x86_64.pkg.tar.xz'',
          fullpath = ''/c/curl-7.80.0-1-x86_64.pkg.tar.xz'', file_ext = ''pkg.tar.xz''\<rparr>]\<rparr>"
         and f = "\<lparr>name = ''curl'', version = ''7.80.0'', pkg_version = ''1'', arch = ''x86_64'',
          filename = ''curl-7.80.0-1-x86_64.pkg.tar.xz'',
          fullpath = ''/c/curl-7.80.0-1-x86_64.pkg.tar.xz'', file_ext = ''pkg.tar.xz''\<rparr>"
         and p = "\<lparr>name = ''curl'', version = ''7.80.0'', pkg_version = ''1'', arch = ''x86_64''\<rparr>"
         and ?f1.0 = "\<lparr>name = ''curl'', version = ''7.80.0'', pkg_version = ''1'', arch = ''x86_64'',
          filename = ''curl-7.80.0-1-x86_64.pkg.tar.xz'',
          fullpath = ''/c/curl-7.80.0-1-x86_64.pkg.tar.xz'', file_ext = ''pkg.tar.xz''\<rparr>"
         and ?f2.0 = "\<lparr>name = ''curl'', version = ''7.80.0'', pkg_version = ''1'', arch = ''x86_64'',
          filename = ''curl-7.80.0-1-x86_64.pkg.tar.gzip'',
          fullpath = ''/c/curl-7.80.0-1-x86_64.pkg.tar.gzip'', file_ext = ''pkg.tar.gzip''\<rparr>"
         and d = "''/c''"]
    by (simp add: Package_eq_def)
  have none: "find_files
     [\<lparr>name = ''wget'', version = ''1.2'', pkg_version = ''1'', arch = ''any''\<rparr>]
     \<lparr>path = ''/c'', pkg_list =
        [\<lparr>name = ''curl'', version = ''7.80.0'', pkg_version = ''1'', arch = ''x86_64'',
          filename = ''curl-7.80.0-1-x86_64.pkg.tar.xz'',
          fullpath = ''/c/curl-7.80.0-1-x86_64.pkg.tar.xz'', file_ext = ''pkg.tar.xz''\<rparr>]\<rparr>
   = []"
    using find_files_matches
      [where packages = "[\<lparr>name = ''wget'', version = ''1.2'', pkg_version = ''1'', arch = ''any''\<rparr>]"
         and pkgfiles = "\<lparr>path = ''/c'', pkg_list =
        [\<lparr>name = ''curl'', version = ''7.80.0'', pkg_version = ''1'', arch = ''x86_64'',
          filename = ''curl-7.80.0-1-x86_64.pkg.tar.xz'',
          fullpath = ''/c/curl-7.80.0-1-x86_64.pkg.tar.xz'', file_ext = ''pkg.tar.xz''\<rparr>]\<rparr>"
         and f = "\<lparr>name = ''curl'', version = ''7.80.0'', pkg_version = ''1'', arch = ''x86_64'',
          filename = ''curl-7.80.0-1-x86_64.pkg.tar.xz'',
          fullpath = ''/c/curl-7.80.0-1-x86_64.pkg.tar.xz'', file_ext = ''pkg.tar.xz''\<rparr>"
         and p = "\<lparr>name = ''wget'', version = ''1.2'', pkg_version = ''1'', arch = ''any''\<rparr>"
         and ?f1.0 = "\<lparr>name = ''curl'', version = ''7.80.0'', pkg_version = ''1'', arch = ''x86_64'',
          filename = ''curl-7.80.0-1-x86_64.pkg.tar.xz'',
          fullpath = ''/c/curl-7.80.0-1-x86_64.pkg.tar.xz'', file_ext = ''pkg.tar.xz''\<rparr>"
         and ?f2.0 = "\<lparr>name = ''curl'', version = ''7.80.0'', pkg_version = ''1'', arch = ''x86_64'',
          filename = ''curl-7.80.0-1-x86_64.pkg.tar.gzip'',
          fullpath = ''/c/curl-7.80.0-1-x86_64.pkg.tar.gzip'', file_ext = ''pkg.tar.gzip''\<rparr>"
         and d = "''/c''"]
    by (simp add: Package_eq_def)
  from two none show ?thesis by (rule conjI)
qed

subsection \<open>Splitting strings\<close>

lemma split_max_no_sep: "sep \<notin> set s \<Longrightarrow> split_max sep n s = [s]"
  by (cases n) simp_all

lemma takeWhile_before_sep:
  "sep \<notin> set x \<Longrightarrow> takeWhile (\<lambda>c. c \<noteq> sep) (x @ sep # y) = x"
  by (induction x) auto

lemma dropWhile_before_sep:
  "sep \<notin> set x \<Longrightarrow> dropWhile (\<lambda>c. c \<noteq> sep) (x @ sep # y) = sep # y"
  by (induction x) auto

lemma split_max_at_sep:
  "sep \<notin> set x \<Longrightarrow> split_max sep (Suc n) (x @ sep # y) = x # split_max sep n y"
  by (simp add: takeWhile_before_sep dropWhile_before_sep)

lemma length_split_max_le: "length (split_max sep n s) \<le> Suc (count_list s sep)"
proof (induction n arbitrary: s)
  case 0
  show ?case by simp
next
  case (Suc n)
  show ?case
  proof (cases "sep \<in> set s")
    case False
    then show ?thesis by simp
  next
    case True
    define pre where "pre = takeWhile (\<lambda>c. c \<noteq> sep) s"
    define post where "post = dropWhile (\<lambda>c. c \<noteq> sep) s"
    have s: "s = pre @ post"
      by (simp add: pre_def post_def)
    have "post \<noteq> []"
      using True by (simp add: post_def)
    moreover have "hd post = sep"
      using True hd_dropWhile [of "\<lambda>c. c \<noteq> sep" s] by (simp add: post_def)
    ultimately have post: "post = sep # tl post"
      by (cases post) simp_all
    have "count_list s sep = count_list pre sep + count_list post sep"
      by (subst s) simp
    also have "count_list post sep = Suc (count_list (tl post) sep)"
      by (subst post) simp
    finally have "Suc (count_list (tl post) sep) \<le> count_list s sep"
      by simp
    with Suc.IH [of "tl post"] True show ?thesis
      by (simp add: post_def)
  qed
qed

lemma length_rsplit_le: "length (rsplit sep n s) \<le> Suc (count_list s sep)"
  using length_split_max_le [of sep n "rev s"] by (simp add: rsplit_def)

lemma rsplit_3:
  assumes "sep \<notin> set v" "sep \<notin> set pv" "sep \<notin> set rest"
  shows "rsplit sep 3 (n @ sep # v @ sep # pv @ sep # rest) = [n, v, pv, rest]"
proof -
  have "split_max sep (Suc (Suc (Suc 0)))
          (rev rest @ sep # rev pv @ sep # rev v @ sep # rev n)
        = [rev rest, rev pv, rev v, rev n]"
    using assms by (simp only: split_max_at_sep set_rev split_max.simps(1) not_False_eq_True)
  then show ?thesis
    by (simp add: rsplit_def numeral_3_eq_3)
qed

lemma split_all_2:
  assumes "sep \<notin> set v" "sep \<notin> set pv"
  shows "split_all sep (v @ sep # pv) = [v, pv]"
  using assms
  by (simp add: split_all_def split_max_at_sep split_max_no_sep del: split_max.simps)

subsection \<open>Parsing a cache file name\<close>

text \<open>
  C3, as the claim states it, fails: the file name is split at its last three hyphens
  into four fields, so \<^verbatim>\<open>foo-bar-1.0-3.any.pkg.tar.xz\<close>, which has three hyphens, gives
  the name \<^verbatim>\<open>foo\<close>, the version \<^verbatim>\<open>bar\<close>, the pkg_version \<^verbatim>\<open>1.0\<close> and the
  architecture \<^verbatim>\<open>3\<close>.
\<close>

theorem PkgFile_init_dot_arch_counterexample:
  "PkgFile_init ''foo-bar-1.0-3.any.pkg.tar.xz'' ''/var/cache/pacman/pkg/''
   = Inr \<lparr>name = ''foo'', version = ''bar'', pkg_version = ''1.0'', arch = ''3'',
          filename = ''foo-bar-1.0-3.any.pkg.tar.xz'',
          fullpath = ''/var/cache/pacman/pkg/foo-bar-1.0-3.any.pkg.tar.xz'',
          file_ext = ''any.pkg.tar.xz''\<rparr>
   \<and> map_sum id name (PkgFile_init ''foo-bar-1.0-3.any.pkg.tar.xz'' ''/var/cache/pacman/pkg/'')
       \<noteq> Inr ''foo-bar''"
  by (simp add: PkgFile_init_def rsplit_def os_path_join_def numeral_3_eq_3)

text \<open>
  C3, amended. Parsing a cache file name splits it from the right into exactly four
  hyphen-delimited fields, name, version, pkg_version and a rest, and splits the rest
  at its first dot into architecture and extension; so a name may itself contain
  hyphens. A file name \<open>n-v-pv-a.e\<close>, where \<open>v\<close>, \<open>pv\<close>, \<open>a\<close> and \<open>e\<close> contain no hyphen
  and \<open>a\<close> contains no dot, parses to name \<open>n\<close>, version \<open>v\<close>, pkg_version \<open>pv\<close>,
  architecture \<open>a\<close> and extension \<open>e\<close>; concretely, \<^verbatim>\<open>foo-bar-1.0-3-any.pkg.tar.xz\<close>
  parses to name \<^verbatim>\<open>foo-bar\<close>, version \<^verbatim>\<open>1.0\<close>, pkg_version \<^verbatim>\<open>3\<close>, architecture
  \<^verbatim>\<open>any\<close>.
\<close>

theorem PkgFile_init_fields:
  assumes "CHR ''-'' \<notin> set v" and "CHR ''-'' \<notin> set pv"
    and "CHR ''-'' \<notin> set a" and "CHR ''-'' \<notin> set e" and "CHR ''.'' \<notin> set a"
  shows "PkgFile_init (n @ ''-'' @ v @ ''-'' @ pv @ ''-'' @ a @ ''.'' @ e) dir
         = Inr \<lparr>name = n, version = v, pkg_version = pv, arch = a,
                filename = n @ ''-'' @ v @ ''-'' @ pv @ ''-'' @ a @ ''.'' @ e,
                fullpath = os_path_join dir (n @ ''-'' @ v @ ''-'' @ pv @ ''-'' @ a @ ''.'' @ e),
                file_ext = e\<rparr>"
proof -
  have rest: "CHR ''-'' \<notin> set (a @ CHR ''.'' # e)"
    using assms by simp
  have hyphens:
    "rsplit CHR ''-'' 3 (n @ CHR ''-'' # v @ CHR ''-'' # pv @ CHR ''-'' # (a @ CHR ''.'' # e))
     = [n, v, pv, a @ CHR ''.'' # e]"
    using assms(1,2) rest by (rule rsplit_3)
  have dot: "split_max CHR ''.'' 1 (a @ CHR ''.'' # e) = [a, e]"
    using assms(5) split_max_at_sep [of "CHR ''.''" a 0 e] by simp
  show ?thesis
    using hyphens dot by (simp add: PkgFile_init_def)
qed

theorem PkgFile_init_fields_witness:
  "PkgFile_init ''foo-bar-1.0-3-any.pkg.tar.xz'' ''/var/cache/pacman/pkg/''
   = Inr \<lparr>name = ''foo-bar'', version = ''1.0'', pkg_version = ''3'', arch = ''any'',
          filename = ''foo-bar-1.0-3-any.pkg.tar.xz'',
          fullpath = ''/var/cache/pacman/pkg/foo-bar-1.0-3-any.pkg.tar.xz'',
          file_ext = ''pkg.tar.xz''\<rparr>"
  using PkgFile_init_fields
    [of "''1.0''" "''3''" "''any''" "''pkg.tar.xz''" "''foo-bar''" "''/var/cache/pacman/pkg/''"]
  by (simp add: os_path_join_def)

subsection \<open>Building the cache catalog\<close>

lemma PkgFile_init_error: "PkgFile_init f dir = Inl e \<Longrightarrow> e = ValueError"
  by (auto simp add: PkgFile_init_def split: list.splits)

lemma PkgFile_init_few_hyphens:
  assumes "count_list f CHR ''-'' < 3"
  shows "PkgFile_init f dir = Inl ValueError"
proof -
  have "length (rsplit CHR ''-'' 3 f) < 4"
    using assms length_rsplit_le [of "CHR ''-''" 3 f] by simp
  then show ?thesis
    by (auto simp add: PkgFile_init_def split: list.splits)
qed

lemma PkgFileList_loop_error:
  "f \<in> set fs \<Longrightarrow> PkgFile_init f dir = Inl ValueError
   \<Longrightarrow> PkgFileList_loop dir fs acc = Inl ValueError"
proof (induction fs arbitrary: acc)
  case Nil
  then show ?case by simp
next
  case (Cons g fs)
  show ?case
  proof (cases "PkgFile_init g dir")
    case (Inl e)
    then show ?thesis
      using PkgFile_init_error [of g dir e] by simp
  next
    case (Inr p)
    with Cons.prems have "f \<in> set fs" by auto
    with Cons.IH Cons.prems(2) Inr show ?thesis by simp
  qed
qed

text \<open>
  C8. When the listing of the cache directory contains a file whose name ends in one of
  the \<open>EXTENSIONS\<close> but has fewer than three hyphens, and so fewer hyphen-delimited
  fields than \<open>PkgFile_init\<close> unpacks, \<open>PkgFileList_init\<close> raises (\<^verbatim>\<open>ValueError\<close>): no
  catalog is returned, with or without the file.
\<close>

theorem PkgFileList_init_malformed_aborts:
  assumes "f \<in> set listing" and "endswith_any f EXTENSIONS"
    and "count_list f CHR ''-'' < 3"
  shows "PkgFileList_init dir listing = Inl ValueError"
proof -
  have "f \<in> set (filter (\<lambda>f. endswith_any f EXTENSIONS) listing)"
    using assms(1,2) by simp
  moreover have "PkgFile_init f dir = Inl ValueError"
    using assms(3) by (rule PkgFile_init_few_hyphens)
  ultimately have
    "PkgFileList_loop dir (filter (\<lambda>f. endswith_any f EXTENSIONS) listing) [] = Inl ValueError"
    by (rule PkgFileList_loop_error)
  then show ?thesis
    by (simp add: PkgFileList_init_def)
qed

theorem PkgFileList_init_malformed_aborts_witness:
  "PkgFileList_init ''/var/cache/pacman/pkg/''
     [''curl-7.80.0-1-x86_64.pkg.tar.xz'', ''foo.pkg.tar.xz'', ''README''] = Inl ValueError"
  using PkgFileList_init_malformed_aborts
    [of "''foo.pkg.tar.xz''"
        "[''curl-7.80.0-1-x86_64.pkg.tar.xz'', ''foo.pkg.tar.xz'', ''README'']"
        "''/var/cache/pacman/pkg/''"]
  by (simp add: endswith_any_def endswith_def EXTENSIONS_def)

subsection \<open>Building an installed record\<close>

lemma index_of_first:
  "i < length xs \<Longrightarrow> xs ! i = x \<Longrightarrow> \<forall>j<i. xs ! j \<noteq> x \<Longrightarrow> index_of xs x = Inr i"
proof (induction xs arbitrary: i)
  case Nil
  then show ?case by simp
next
  case (Cons y ys)
  show ?case
  proof (cases i)
    case 0
    with Cons.prems show ?thesis by simp
  next
    case (Suc k)
    from Cons.prems(3) Suc have "y \<noteq> x" by auto
    moreover have "index_of ys x = Inr k"
    proof (rule Cons.IH)
      show "k < length ys" using Cons.prems(1) Suc by simp
      show "ys ! k = x" using Cons.prems(2) Suc by simp
      show "\<forall>j<k. ys ! j \<noteq> x"
      proof (intro allI impI)
        fix j assume "j < k"
        then have "Suc j < i" using Suc by simp
        with Cons.prems(3) have "(y # ys) ! Suc j \<noteq> x" by blast
        then show "ys ! j \<noteq> x" by simp
      qed
    qed
    ultimately show ?thesis using Suc by simp
  qed
qed

lemma line_after_first:
  "i < length xs \<Longrightarrow> xs ! i = m \<Longrightarrow> \<forall>j<i. xs ! j \<noteq> m \<Longrightarrow> Suc i < length xs
   \<Longrightarrow> line_after xs m = Inr (xs ! Suc i)"
  using index_of_first [of i xs m] by (simp add: line_after_def subscript_def)

text \<open>
  C7. Building an installed record from the lines of a \<^verbatim>\<open>desc\<close> file, each stripped of
  its newlines, takes for each of the markers \<^verbatim>\<open>%NAME%\<close>, \<^verbatim>\<open>%VERSION%\<close> and \<^verbatim>\<open>%ARCH%\<close>
  the line that follows the first line equal to the marker, and splits the value of
  \<^verbatim>\<open>%VERSION%\<close> at its single hyphen into version and pkg_version. Concretely, the
  lines \<^verbatim>\<open>%NAME%\<close>, \<^verbatim>\<open>curl\<close>, \<^verbatim>\<open>%VERSION%\<close>, \<^verbatim>\<open>7.80.0-1\<close>, \<^verbatim>\<open>%ARCH%\<close>, \<^verbatim>\<open>x86_64\<close>
  give name \<^verbatim>\<open>curl\<close>, version \<^verbatim>\<open>7.80.0\<close>, pkg_version \<^verbatim>\<open>1\<close>, architecture \<^verbatim>\<open>x86_64\<close>.
\<close>

theorem InstalledPkg_of_desc_fields:
  assumes "lines = map strip_nl raw"
    and "i < length lines" and "lines ! i = ''%NAME%''"
    and "\<forall>h<i. lines ! h \<noteq> ''%NAME%''" and "Suc i < length lines"
    and "j < length lines" and "lines ! j = ''%VERSION%''"
    and "\<forall>h<j. lines ! h \<noteq> ''%VERSION%''" and "Suc j < length lines"
    and "k < length lines" and "lines ! k = ''%ARCH%''"
    and "\<forall>h<k. lines ! h \<noteq> ''%ARCH%''" and "Suc k < length lines"
    and "lines ! Suc j = v @ ''-'' @ pv"
    and "CHR ''-'' \<notin> set v" and "CHR ''-'' \<notin> set pv"
  shows "InstalledPkg_of_desc raw
         = Inr \<lparr>name = lines ! Suc i, version = v, pkg_version = pv, arch = lines ! Suc k\<rparr>"
proof -
  have n: "line_after lines ''%NAME%'' = Inr (lines ! Suc i)"
    using assms(2-5) by (rule line_after_first)
  have ver: "line_after lines ''%VERSION%'' = Inr (v @ CHR ''-'' # pv)"
    using line_after_first [OF assms(6-9)] assms(14) by simp
  have a: "line_after lines ''%ARCH%'' = Inr (lines ! Suc k)"
    using assms(10-13) by (rule line_after_first)
  have split: "split_all CHR ''-'' (v @ CHR ''-'' # pv) = [v, pv]"
    using assms(15,16) by (rule split_all_2)
  show ?thesis
    using n ver a split
    by (simp add: InstalledPkg_of_desc_def InstalledPkg_init_def assms(1) [symmetric])
qed

theorem InstalledPkg_of_desc_fields_witness:
  "InstalledPkg_of_desc [''%NAME%'', ''curl'', ''%VERSION%'', ''7.80.0-1'', ''%ARCH%'', ''x86_64'']
   = Inr \<lparr>name = ''curl'', version = ''7.80.0'', pkg_version = ''1'', arch = ''x86_64''\<rparr>"
  using InstalledPkg_of_desc_fields
    [of "[''%NAME%'', ''curl'', ''%VERSION%'', ''7.80.0-1'', ''%ARCH%'', ''x86_64'']"
        "[''%NAME%'', ''curl'', ''%VERSION%'', ''7.80.0-1'', ''%ARCH%'', ''x86_64'']"
        0 2 4 "''7.80.0''" "''1''"]
  by (simp add: strip_nl_def less_Suc_eq numeral_2_eq_2 numeral_eq_Suc)

subsection \<open>Deleting the selected files\<close>

lemma remove_packages_returns:
  "\<forall>s q. fst (os_remove s q) \<noteq> Some EACCES
   \<Longrightarrow> \<exists>w. remove_packages os_remove pkgs (fs, out) = Returned w"
proof (induction pkgs arbitrary: fs out)
  case Nil
  show ?case by simp
next
  case (Cons pkg rest)
  obtain r fs1 where step: "os_remove fs (fullpath pkg) = (r, fs1)"
    by (cases "os_remove fs (fullpath pkg)")
  with Cons.prems have "r \<noteq> Some EACCES"
    by (metis fst_conv)
  with step Cons.IH [OF Cons.prems] show ?case
    by (cases r) (simp_all add: Let_def)
qed

text \<open>
  C9, as the claim states it, fails: a removal that is refused for lack of permission
  with \<^verbatim>\<open>EPERM\<close>, as for an immutable file, does not end the run. The failure is
  ignored and the next file is removed.
\<close>

theorem remove_packages_eperm_counterexample:
  "remove_packages simple_remove
     [\<lparr>name = ''wget'', version = ''1.2'', pkg_version = ''1'', arch = ''any'',
       filename = ''wget-1.2-1-any.pkg.tar.xz'', fullpath = ''/c/wget-1.2-1-any.pkg.tar.xz'',
       file_ext = ''pkg.tar.xz''\<rparr>,
      \<lparr>name = ''curl'', version = ''7.79.0'', pkg_version = ''1'', arch = ''any'',
       filename = ''curl-7.79.0-1-any.pkg.tar.xz'', fullpath = ''/c/curl-7.79.0-1-any.pkg.tar.xz'',
       file_ext = ''pkg.tar.xz''\<rparr>]
     (\<lparr>existing = [''/c/wget-1.2-1-any.pkg.tar.xz'', ''/c/curl-7.79.0-1-any.pkg.tar.xz''],
       protected = [], immutable = [''/c/wget-1.2-1-any.pkg.tar.xz'']\<rparr>, [])
   = Returned (\<lparr>existing = [''/c/wget-1.2-1-any.pkg.tar.xz''],
                 protected = [], immutable = [''/c/wget-1.2-1-any.pkg.tar.xz'']\<rparr>,
       [''deleting... wget-1.2-1'', ''deleting... curl-7.79.0-1''])
   \<and> simple_remove
       \<lparr>existing = [''/c/wget-1.2-1-any.pkg.tar.xz'', ''/c/curl-7.79.0-1-any.pkg.tar.xz''],
         protected = [], immutable = [''/c/wget-1.2-1-any.pkg.tar.xz'']\<rparr>
       ''/c/wget-1.2-1-any.pkg.tar.xz''
     = (Some EPERM,
        \<lparr>existing = [''/c/wget-1.2-1-any.pkg.tar.xz'', ''/c/curl-7.79.0-1-any.pkg.tar.xz''],
          protected = [], immutable = [''/c/wget-1.2-1-any.pkg.tar.xz'']\<rparr>)"
  by (simp add: simple_remove_def Package_str_def)

text \<open>
  C9, amended. In \<open>remove_packages\<close>, when removing a selected file fails because the
  file no longer exists (\<^verbatim>\<open>ENOENT\<close>), no error is raised and the run goes on with the
  remaining files as if the file had been removed; the same holds for every failure
  whose \<^verbatim>\<open>errno\<close> is not \<^verbatim>\<open>EACCES\<close>, a refusal with \<^verbatim>\<open>EPERM\<close> included. When the
  removal fails with \<^verbatim>\<open>EACCES\<close>, the run prints a hint and ends at once, without
  touching the remaining files. A run in which no removal fails with \<^verbatim>\<open>EACCES\<close>
  returns.
\<close>

theorem remove_packages_missing_continues_denied_exits:
  "(os_remove fs (fullpath pkg) = (Some ENOENT, fs1) \<longrightarrow>
      remove_packages os_remove (pkg # rest) (fs, out)
      = remove_packages os_remove rest (fs1, out @ [''deleting... '' @ Package_str pkg]))
   \<and> (os_remove fs (fullpath pkg) = (Some e, fs1) \<and> e \<noteq> EACCES \<longrightarrow>
      remove_packages os_remove (pkg # rest) (fs, out)
      = remove_packages os_remove rest (fs1, out @ [''deleting... '' @ Package_str pkg]))
   \<and> (os_remove fs (fullpath pkg) = (None, fs1) \<longrightarrow>
      remove_packages os_remove (pkg # rest) (fs, out)
      = remove_packages os_remove rest (fs1, out @ [''deleting... '' @ Package_str pkg]))
   \<and> (os_remove fs (fullpath pkg) = (Some EACCES, fs1) \<longrightarrow>
      remove_packages os_remove (pkg # rest) (fs, out)
      = Exited (fs1, out @ [''deleting... '' @ Package_str pkg,
                            ''You don't have premissions to delete this file. Run as Root?'']))
   \<and> ((\<forall>s q. fst (os_remove s q) \<noteq> Some EACCES) \<longrightarrow>
        (\<exists>w. remove_packages os_remove (pkg # rest) (fs, out) = Returned w))"
proof -
  have "(\<forall>s q. fst (os_remove s q) \<noteq> Some EACCES) \<longrightarrow>
        (\<exists>w. remove_packages os_remove (pkg # rest) (fs, out) = Returned w)"
    using remove_packages_returns [of os_remove "pkg # rest" fs out] by blast
  then show ?thesis
    by (simp add: Let_def)
qed

theorem remove_packages_missing_continues_denied_exits_witness:
  "remove_packages simple_remove
     [\<lparr>name = ''wget'', version = ''1.2'', pkg_version = ''1'', arch = ''any'',
       filename = ''wget-1.2-1-any.pkg.tar.xz'', fullpath = ''/c/wget-1.2-1-any.pkg.tar.xz'',
       file_ext = ''pkg.tar.xz''\<rparr>,
      \<lparr>name = ''curl'', version = ''7.79.0'', pkg_version = ''1'', arch = ''any'',
       filename = ''curl-7.79.0-1-any.pkg.tar.xz'', fullpath = ''/c/curl-7.79.0-1-any.pkg.tar.xz'',
       file_ext = ''pkg.tar.xz''\<rparr>]
     (\<lparr>existing = [''/c/curl-7.79.0-1-any.pkg.tar.xz''], protected = [], immutable = []\<rparr>, [])
   = Returned (\<lparr>existing = [], protected = [], immutable = []\<rparr>,
       [''deleting... wget-1.2-1'', ''deleting... curl-7.79.0-1''])
   \<and> remove_packages simple_remove
     [\<lparr>name = ''wget'', version = ''1.2'', pkg_version = ''1'', arch = ''any'',
       filename = ''wget-1.2-1-any.pkg.tar.xz'', fullpath = ''/c/wget-1.2-1-any.pkg.tar.xz'',
       file_ext = ''pkg.tar.xz''\<rparr>,
      \<lparr>name = ''curl'', version = ''7.79.0'', pkg_version = ''1'', arch = ''any'',
       filename = ''curl-7.79.0-1-any.pkg.tar.xz'', fullpath = ''/c/curl-7.79.0-1-any.pkg.tar.xz'',
       file_ext = ''pkg.tar.xz''\<rparr>]
     (\<lparr>existing = [''/c/wget-1.2-1-any.pkg.tar.xz'', ''/c/curl-7.79.0-1-any.pkg.tar.xz''],
       protected = [''/c/wget-1.2-1-any.pkg.tar.xz''], immutable = []\<rparr>, [])
   = Exited (\<lparr>existing = [''/c/wget-1.2-1-any.pkg.tar.xz'', ''/c/curl-7.79.0-1-any.pkg.tar.xz''],
               protected = [''/c/wget-1.2-1-any.pkg.tar.xz''], immutable = []\<rparr>,
       [''deleting... wget-1.2-1'',
        ''You don't have premissions to delete this file. Run as Root?''])"
proof -
  let ?wget = "\<lparr>name = ''wget'', version = ''1.2'', pkg_version = ''1'', arch = ''any'',
       filename = ''wget-1.2-1-any.pkg.tar.xz'', fullpath = ''/c/wget-1.2-1-any.pkg.tar.xz'',
       file_ext = ''pkg.tar.xz''\<rparr>"
  let ?curl = "\<lparr>name = ''curl'', version = ''7.79.0'', pkg_version = ''1'', arch = ''any'',
       filename = ''curl-7.79.0-1-any.pkg.tar.xz'', fullpath = ''/c/curl-7.79.0-1-any.pkg.tar.xz'',
       file_ext = ''pkg.tar.xz''\<rparr>"
  let ?gone = "\<lparr>existing = [''/c/curl-7.79.0-1-any.pkg.tar.xz''], protected = [], immutable = []\<rparr>"
  let ?denied = "\<lparr>existing = [''/c/wget-1.2-1-any.pkg.tar.xz'', ''/c/curl-7.79.0-1-any.pkg.tar.xz''],
       protected = [''/c/wget-1.2-1-any.pkg.tar.xz''], immutable = []\<rparr>"
  have missing: "simple_remove ?gone (fullpath ?wget) = (Some ENOENT, ?gone)"
    by (simp add: simple_remove_def)
  have refused: "simple_remove ?denied (fullpath ?wget) = (Some EACCES, ?denied)"
    by (simp add: simple_remove_def)
  have "remove_packages simple_remove [?wget, ?curl] (?gone, [])
        = remove_packages simple_remove [?curl] (?gone, [] @ [''deleting... '' @ Package_str ?wget])"
    using remove_packages_missing_continues_denied_exits
      [where os_remove = simple_remove and fs = ?gone and pkg = ?wget and ?fs1.0 = ?gone
         and rest = "[?curl]" and out = "[]" and e = ENOENT] missing
    by blast
  then have one: "remove_packages simple_remove [?wget, ?curl] (?gone, [])
        = Returned (\<lparr>existing = [], protected = [], immutable = []\<rparr>,
            [''deleting... wget-1.2-1'', ''deleting... curl-7.79.0-1''])"
    by (simp add: simple_remove_def Package_str_def)
  have "remove_packages simple_remove [?wget, ?curl] (?denied, [])
        = Exited (?denied, [] @ [''deleting... '' @ Package_str ?wget,
                            ''You don't have premissions to delete this file. Run as Root?''])"
    using remove_packages_missing_continues_denied_exits
      [where os_remove = simple_remove and fs = ?denied and pkg = ?wget and ?fs1.0 = ?denied
         and rest = "[?curl]" and out = "[]" and e = EACCES] refused
    by blast
  then have two: "remove_packages simple_remove [?wget, ?curl] (?denied, [])
        = Exited (?denied, [''deleting... wget-1.2-1'',
                            ''You don't have premissions to delete this file. Run as Root?''])"
    by (simp add: Package_str_def)
  from one two show ?thesis by (rule conjI)
qed

subsection \<open>Old versions beyond the retention count\<close>

lemma slice_to_zero: "slice_to xs 0 = []"
  by (simp add: slice_to_def)

lemma slice_to_minus_pos: "0 < n \<Longrightarrow> slice_to xs (- n) = take (length xs - nat n) xs"
proof -
  assume "0 < n"
  then have "nat (int (length xs) + - n) = length xs - nat n"
    by arith
  with \<open>0 < n\<close> show ?thesis
    by (simp add: slice_to_def)
qed

lemma length_sorted_by_key: "length (sorted_by_key ps) = length ps"
  by (simp add: sorted_by_key_def)

lemma set_sorted_by_key: "set (sorted_by_key ps) = set ps"
  by (simp add: sorted_by_key_def)

lemma older_than_loop_zero: "older_than_loop ns pkgfiles 0 result = result"
  by (induction ns arbitrary: result) (simp_all add: slice_to_zero Let_def)

lemma older_than_loop_pos:
  "0 < number \<Longrightarrow>
   older_than_loop ns pkgfiles number result
   = result @ concat (map (\<lambda>p. take (length (get_by_name pkgfiles p) - nat number)
                                   (sorted_by_key (get_by_name pkgfiles p))) ns)"
proof (induction ns arbitrary: result)
  case Nil
  show ?case by simp
next
  case (Cons p ns)
  let ?fl = "get_by_name pkgfiles p"
  show ?case
  proof (cases "int (length ?fl) > number")
    case True
    with Cons.prems have "nat number < length ?fl" by arith
    with True Cons show ?thesis
      by (simp add: Let_def slice_to_minus_pos append_each_append length_sorted_by_key)
  next
    case False
    then have "length ?fl - nat number = 0" by arith
    with False Cons show ?thesis
      by (simp add: Let_def)
  qed
qed

lemma filter_concat_by_name:
  "distinct ns \<Longrightarrow> p \<in> set ns \<Longrightarrow> \<forall>q \<in> set ns. \<forall>e \<in> set (g q). name e = q
   \<Longrightarrow> filter (\<lambda>e. name e = p) (concat (map g ns)) = g p"
proof (induction ns)
  case Nil
  then show ?case by simp
next
  case (Cons q ns)
  show ?case
  proof (cases "q = p")
    case True
    with Cons.prems have "p \<notin> set ns" by simp
    with Cons.prems(3) have "\<forall>r \<in> set ns. \<forall>e \<in> set (g r). name e \<noteq> p" by auto
    then have "filter (\<lambda>e. name e = p) (concat (map g ns)) = []"
      by (auto simp add: filter_empty_conv)
    moreover have "filter (\<lambda>e. name e = p) (g p) = g p"
      using Cons.prems(3) True by (simp add: filter_id_conv)
    ultimately show ?thesis using True by simp
  next
    case False
    with Cons.prems have "distinct ns" "p \<in> set ns" by auto
    moreover have "\<forall>r \<in> set ns. \<forall>e \<in> set (g r). name e = r"
      using Cons.prems(3) by simp
    ultimately have "filter (\<lambda>e. name e = p) (concat (map g ns)) = g p"
      by (rule Cons.IH)
    moreover have "filter (\<lambda>e. name e = p) (g q) = []"
      using Cons.prems(3) False by (auto simp add: filter_empty_conv)
    ultimately show ?thesis by simp
  qed
qed

text \<open>With \<open>number = 0\<close> the slice \<^verbatim>\<open>full_list[0:-0]\<close> is \<^verbatim>\<open>full_list[0:0]\<close>, the empty
  list: nothing is selected, whatever the catalogs hold.\<close>

lemma older_than_keep_zero: "older_than pkgfiles installed 0 = []"
  by (simp add: older_than_def older_than_loop_zero)

text \<open>With a positive \<open>number\<close>, the entries selected for an installed name \<open>p\<close> with
  \<open>k\<close> cache entries are the first \<open>k - number\<close> of them in sorted order.\<close>

lemma older_than_keep_pos:
  assumes "0 < number" and "p \<in> set (names installed)"
  shows "filter (\<lambda>e. name e = p) (older_than pkgfiles installed number)
         = take (length (get_by_name pkgfiles p) - nat number)
                (sorted_by_key (get_by_name pkgfiles p))"
    and "int (length (filter (\<lambda>e. name e = p) (older_than pkgfiles installed number)))
         = max 0 (int (length (get_by_name pkgfiles p)) - number)"
proof -
  let ?g = "\<lambda>q. take (length (get_by_name pkgfiles q) - nat number)
                   (sorted_by_key (get_by_name pkgfiles q))"
  have names_ok: "\<forall>q \<in> set (unique installed). \<forall>e \<in> set (?g q). name e = q"
  proof (intro ballI)
    fix q e assume "e \<in> set (?g q)"
    then have "e \<in> set (sorted_by_key (get_by_name pkgfiles q))"
      by (rule in_set_takeD)
    then show "name e = q"
      by (simp add: set_sorted_by_key get_by_name_filter)
  qed
  have "p \<in> set (unique installed)"
    using assms(2) by (simp add: set_unique)
  with distinct_unique [of installed]
  have "filter (\<lambda>e. name e = p) (concat (map ?g (unique installed))) = ?g p"
    using names_ok by (rule filter_concat_by_name)
  then show first: "filter (\<lambda>e. name e = p) (older_than pkgfiles installed number) = ?g p"
    using assms(1) by (simp add: older_than_def older_than_loop_pos)
  show "int (length (filter (\<lambda>e. name e = p) (older_than pkgfiles installed number)))
         = max 0 (int (length (get_by_name pkgfiles p)) - number)"
    using assms(1) by (simp add: first length_sorted_by_key)
qed

text \<open>
  C1 at \<open>keep = 0\<close>. The name \<^verbatim>\<open>curl\<close> is installed and has one cache entry, so the claim
  gives \<open>max(0, 1 - 0) = 1\<close> selected entry for it; \<open>older_than\<close> selects none.
\<close>

theorem older_than_keep_zero_selects_no_entry:
  "older_than
     \<lparr>path = ''/c'', pkg_list =
        [\<lparr>name = ''curl'', version = ''7.80.0'', pkg_version = ''1'', arch = ''x86_64'',
          filename = ''curl-7.80.0-1-x86_64.pkg.tar.xz'',
          fullpath = ''/c/curl-7.80.0-1-x86_64.pkg.tar.xz'', file_ext = ''pkg.tar.xz''\<rparr>]\<rparr>
     \<lparr>path = ''/i'', pkg_list =
        [\<lparr>name = ''curl'', version = ''7.80.0'', pkg_version = ''1'', arch = ''x86_64''\<rparr>]\<rparr>
     0
   = []
   \<and> ''curl'' \<in> set (names \<lparr>path = ''/i'', pkg_list =
        [\<lparr>name = ''curl'', version = ''7.80.0'', pkg_version = ''1'', arch = ''x86_64''\<rparr>]\<rparr>)
   \<and> max 0 (int (length (get_by_name
         \<lparr>path = ''/c'', pkg_list =
            [\<lparr>name = ''curl'', version = ''7.80.0'', pkg_version = ''1'', arch = ''x86_64'',
              filename = ''curl-7.80.0-1-x86_64.pkg.tar.xz'',
              fullpath = ''/c/curl-7.80.0-1-x86_64.pkg.tar.xz'',
              file_ext = ''pkg.tar.xz''\<rparr>]\<rparr> ''curl'')) - 0) = 1"
  by (simp add: older_than_def unique_def names_def get_by_name_def slice_to_def
      sorted_by_key_def Let_def)

text \<open>
  C2 at a concrete input. With \<open>keep = 0\<close>, two cache entries bear the installed name
  \<^verbatim>\<open>curl\<close>; the claim has both returned, \<open>older_than\<close> returns none.
\<close>

theorem older_than_keep_zero_drops_nothing:
  "older_than
     \<lparr>path = ''/c'', pkg_list =
        [\<lparr>name = ''curl'', version = ''7.79.0'', pkg_version = ''1'', arch = ''x86_64'',
          filename = ''curl-7.79.0-1-x86_64.pkg.tar.xz'',
          fullpath = ''/c/curl-7.79.0-1-x86_64.pkg.tar.xz'', file_ext = ''pkg.tar.xz''\<rparr>,
         \<lparr>name = ''wget'', version = ''1.2'', pkg_version = ''1'', arch = ''any'',
          filename = ''wget-1.2-1-any.pkg.tar.xz'',
          fullpath = ''/c/wget-1.2-1-any.pkg.tar.xz'', file_ext = ''pkg.tar.xz''\<rparr>,
         \<lparr>name = ''curl'', version = ''7.80.0'', pkg_version = ''1'', arch = ''x86_64'',
          filename = ''curl-7.80.0-1-x86_64.pkg.tar.xz'',
          fullpath = ''/c/curl-7.80.0-1-x86_64.pkg.tar.xz'', file_ext = ''pkg.tar.xz''\<rparr>]\<rparr>
     \<lparr>path = ''/i'', pkg_list =
        [\<lparr>name = ''curl'', version = ''7.80.0'', pkg_version = ''1'', arch = ''x86_64''\<rparr>]\<rparr>
     0
   = []
   \<and> filter (\<lambda>e. name e \<in> set (names \<lparr>path = ''/i'', pkg_list =
        [\<lparr>name = ''curl'', version = ''7.80.0'', pkg_version = ''1'', arch = ''x86_64''\<rparr>]\<rparr>))
       [\<lparr>name = ''curl'', version = ''7.79.0'', pkg_version = ''1'', arch = ''x86_64'',
          filename = ''curl-7.79.0-1-x86_64.pkg.tar.xz'',
          fullpath = ''/c/curl-7.79.0-1-x86_64.pkg.tar.xz'', file_ext = ''pkg.tar.xz''\<rparr>,
         \<lparr>name = ''wget'', version = ''1.2'', pkg_version = ''1'', arch = ''any'',
          filename = ''wget-1.2-1-any.pkg.tar.xz'',
          fullpath = ''/c/wget-1.2-1-any.pkg.tar.xz'', file_ext = ''pkg.tar.xz''\<rparr>,
         \<lparr>name = ''curl'', version = ''7.80.0'', pkg_version = ''1'', arch = ''x86_64'',
          filename = ''curl-7.80.0-1-x86_64.pkg.tar.xz'',
          fullpath = ''/c/curl-7.80.0-1-x86_64.pkg.tar.xz'', file_ext = ''pkg.tar.xz''\<rparr>]
     = [\<lparr>name = ''curl'', version = ''7.79.0'', pkg_version = ''1'', arch = ''x86_64'',
          filename = ''curl-7.79.0-1-x86_64.pkg.tar.xz'',
          fullpath = ''/c/curl-7.79.0-1-x86_64.pkg.tar.xz'', file_ext = ''pkg.tar.xz''\<rparr>,
        \<lparr>name = ''curl'', version = ''7.80.0'', pkg_version = ''1'', arch = ''x86_64'',
          filename = ''curl-7.80.0-1-x86_64.pkg.tar.xz'',
          fullpath = ''/c/curl-7.80.0-1-x86_64.pkg.tar.xz'', file_ext = ''pkg.tar.xz''\<rparr>]"
  by (simp add: older_than_def unique_def names_def get_by_name_def slice_to_def
      sorted_by_key_def sort_key_of_def Let_def)

text \<open>The retention count at work: of three cache entries of the installed \<^verbatim>\<open>curl\<close>,
  with \<open>number = 2\<close>, the lowest in string order is selected.\<close>

lemma older_than_keep_two_example:
  "older_than
     \<lparr>path = ''/c'', pkg_list =
        [\<lparr>name = ''curl'', version = ''7.81.0'', pkg_version = ''1'', arch = ''x86_64'',
          filename = ''curl-7.81.0-1-x86_64.pkg.tar.xz'',
          fullpath = ''/c/curl-7.81.0-1-x86_64.pkg.tar.xz'', file_ext = ''pkg.tar.xz''\<rparr>,
         \<lparr>name = ''curl'', version = ''7.79.0'', pkg_version = ''1'', arch = ''x86_64'',
          filename = ''curl-7.79.0-1-x86_64.pkg.tar.xz'',
          fullpath = ''/c/curl-7.79.0-1-x86_64.pkg.tar.xz'', file_ext = ''pkg.tar.xz''\<rparr>,
         \<lparr>name = ''curl'', version = ''7.80.0'', pkg_version = ''1'', arch = ''x86_64'',
          filename = ''curl-7.80.0-1-x86_64.pkg.tar.xz'',
          fullpath = ''/c/curl-7.80.0-1-x86_64.pkg.tar.xz'', file_ext = ''pkg.tar.xz''\<rparr>]\<rparr>
     \<lparr>path = ''/i'', pkg_list =
        [\<lparr>name = ''curl'', version = ''7.81.0'', pkg_version = ''1'', arch = ''x86_64''\<rparr>]\<rparr>
     NR_OF_PKG
   = [\<lparr>name = ''curl'', version = ''7.79.0'', pkg_version = ''1'', arch = ''x86_64'',
       filename = ''curl-7.79.0-1-x86_64.pkg.tar.xz'',
       fullpath = ''/c/curl-7.79.0-1-x86_64.pkg.tar.xz'', file_ext = ''pkg.tar.xz''\<rparr>]"
  by (simp add: older_than_def unique_def names_def get_by_name_def slice_to_def
      sorted_by_key_def sort_key_of_def NR_OF_PKG_def Let_def)

end
